theory Spec2Isabelle
  imports Complex_Main
begin

section \<open>Data model\<close>

text \<open>
  The development embeds \<^verbatim>\<open>src/src/selection.py\<close> (class \<^verbatim>\<open>PaperSelector\<close>).
  Python floats are modelled as real numbers: arithmetic is exact, and NaN and the
  infinities are outside the model. Rounding is modelled separately, for \<^verbatim>\<open>np.mean\<close>,
  \<^verbatim>\<open>np.std\<close> and the arithmetic of \<^verbatim>\<open>compute_threshold\<close>, in the section on binary
  floating point. A numpy array is modelled by its
  mathematical content: a 1-D array is a list, a 2-D array is a list of rows, all of
  the same length.
\<close>

text \<open>Every exception raised on the paths modelled here is a \<^verbatim>\<open>ValueError\<close>; the
  message tells them apart. Messages of \<^verbatim>\<open>selection.py\<close> are kept literally, messages
  of the libraries are cut after their fixed prefix (the formatted shapes are dropped).\<close>

datatype error = ValueError string

datatype ndarray = Array1 "real list" | Array2 "real list list"

datatype pyval = PyInt int | PyFloat real

text \<open>The two attributes set by \<^verbatim>\<open>__init__\<close>; \<^verbatim>\<open>None\<close> is \<open>None\<close>.\<close>

record PaperSelector =
  similarities :: "real list option"
  threshold :: "real option"

definition PaperSelector_init :: PaperSelector where
  "PaperSelector_init = \<lparr>similarities = None, threshold = None\<rparr>"

section \<open>Library functions used by the selector\<close>

subsection \<open>numpy reductions\<close>

text \<open>
  \<^verbatim>\<open>np.mean\<close>, \<^verbatim>\<open>np.std\<close> (default \<^verbatim>\<open>ddof=0\<close>), \<^verbatim>\<open>np.median\<close> and \<^verbatim>\<open>np.percentile\<close>
  (default \<^verbatim>\<open>method='linear'\<close>) on a 1-D array, written the way numpy computes them.
  On an empty array numpy yields \<^verbatim>\<open>nan\<close>, which a real number cannot represent: these
  four functions model numpy on non-empty arrays only, and every statement about them
  below carries the hypothesis that the array is non-empty. The selector never stores
  an empty score vector (lemma \<open>compute_similarities_nonempty\<close>).
\<close>

definition np_mean :: "real list \<Rightarrow> real" where
  "np_mean a = sum_list a / real (length a)"

definition np_std :: "real list \<Rightarrow> real" where
  "np_std a =
     (let arrmean = np_mean a;
          x = map (\<lambda>v. v - arrmean) a;
          x = map (\<lambda>v. v * v) x
      in sqrt (sum_list x / real (length a)))"

definition np_median :: "real list \<Rightarrow> real" where
  "np_median a =
     (let part = sort a;
          sz = length a;
          index = sz div 2
      in if sz mod 2 = 1 then np_mean [part ! index]
         else np_mean [part ! (index - 1), part ! index])"

definition np_percentile :: "real list \<Rightarrow> real \<Rightarrow> real" where
  "np_percentile a q =
     (let arr = sort a;
          values_count = length a;
          quantile = q / 100;
          virtual_index = real (values_count - 1) * quantile;
          previous_index = nat \<lfloor>virtual_index\<rfloor>;
          next_index = min (previous_index + 1) (values_count - 1);
          gamma = virtual_index - real previous_index
      in arr ! previous_index + (arr ! next_index - arr ! previous_index) * gamma)"

text \<open>\<^verbatim>\<open>np.min\<close> and \<^verbatim>\<open>np.max\<close> raise on an empty array.\<close>

definition np_min :: "real list \<Rightarrow> error + real" where
  "np_min a = (case a of
       [] \<Rightarrow> Inl (ValueError ''zero-size array to reduction operation minimum which has no identity'')
     | x # xs \<Rightarrow> Inr (fold min xs x))"

definition np_max :: "real list \<Rightarrow> error + real" where
  "np_max a = (case a of
       [] \<Rightarrow> Inl (ValueError ''zero-size array to reduction operation maximum which has no identity'')
     | x # xs \<Rightarrow> Inr (fold max xs x))"

text \<open>\<^verbatim>\<open>self.similarities >= t\<close>, elementwise, and \<^verbatim>\<open>np.sum\<close> of a boolean array.\<close>

definition ge_mask :: "real list \<Rightarrow> real \<Rightarrow> bool list" where
  "ge_mask a t = map (\<lambda>x. x \<ge> t) a"

definition np_sum_bool :: "bool list \<Rightarrow> int" where
  "np_sum_bool bs = sum_list (map (\<lambda>b. if b then 1 else 0) bs)"

subsection \<open>Array shape\<close>

definition ndim :: "ndarray \<Rightarrow> nat" where
  "ndim a = (case a of Array1 _ \<Rightarrow> 1 | Array2 _ \<Rightarrow> 2)"

text \<open>\<^verbatim>\<open>a.reshape(1, -1)\<close>: one row holding all the elements in order.\<close>

definition reshape_1_m1 :: "ndarray \<Rightarrow> ndarray" where
  "reshape_1_m1 a = (case a of Array1 v \<Rightarrow> Array2 [v] | Array2 rows \<Rightarrow> Array2 [concat rows])"

definition flatten :: "real list list \<Rightarrow> real list" where
  "flatten rows = concat rows"

subsection \<open>sklearn's \<^verbatim>\<open>cosine_similarity\<close>\<close>

text \<open>
  \<^verbatim>\<open>sklearn.metrics.pairwise.cosine_similarity(X, Y)\<close> validates both arrays
  (\<^verbatim>\<open>check_pairwise_arrays\<close>: each must be 2-D with at least one row and one column, and
  both must have the same number of columns), scales every row to unit length
  (\<^verbatim>\<open>normalize\<close>, which leaves a row of norm zero as it is: the zero norm is replaced by
  one) and returns the matrix of dot products of the scaled rows. In floating point
  sklearn replaces every norm below ten machine epsilons by one; the exact model replaces
  the zero norm only.
\<close>

definition check_array :: "ndarray \<Rightarrow> error + real list list" where
  "check_array a = (case a of
       Array1 _ \<Rightarrow> Inl (ValueError ''Expected 2D array, got 1D array instead'')
     | Array2 [] \<Rightarrow> Inl (ValueError ''Found array with 0 sample(s)'')
     | Array2 (r # rs) \<Rightarrow>
         if length r = 0 then Inl (ValueError ''Found array with 0 feature(s)'')
         else Inr (r # rs))"

definition check_pairwise_arrays ::
  "ndarray \<Rightarrow> ndarray \<Rightarrow> error + (real list list \<times> real list list)" where
  "check_pairwise_arrays X Y =
     (case check_array X of Inl e \<Rightarrow> Inl e | Inr X' \<Rightarrow>
      case check_array Y of Inl e \<Rightarrow> Inl e | Inr Y' \<Rightarrow>
        if length (hd X') \<noteq> length (hd Y')
        then Inl (ValueError ''Incompatible dimension for X and Y matrices'')
        else Inr (X', Y'))"

definition row_norm :: "real list \<Rightarrow> real" where
  "row_norm v = sqrt (sum_list (map (\<lambda>x. x * x) v))"

definition handle_zeros_in_scale :: "real \<Rightarrow> real" where
  "handle_zeros_in_scale s = (if s = 0 then 1 else s)"

definition normalize_rows :: "real list list \<Rightarrow> real list list" where
  "normalize_rows X = map (\<lambda>v. map (\<lambda>x. x / handle_zeros_in_scale (row_norm v)) v) X"

definition dot :: "real list \<Rightarrow> real list \<Rightarrow> real" where
  "dot u v = sum_list (map2 (*) u v)"

definition cosine_similarity :: "ndarray \<Rightarrow> ndarray \<Rightarrow> error + real list list" where
  "cosine_similarity X Y =
     (case check_pairwise_arrays X Y of
        Inl e \<Rightarrow> Inl e
      | Inr (X', Y') \<Rightarrow>
          (let X_normalized = normalize_rows X';
               Y_normalized = normalize_rows Y'
           in Inr (map (\<lambda>x. map (\<lambda>y. dot x y) Y_normalized) X_normalized)))"

section \<open>The selector's operations\<close>

text \<open>
  Each method takes the selector and returns its result together with the selector
  after the call; a raised exception is \<open>Inl\<close>, and the selector returned with it is the
  state the exception leaves behind.
\<close>

definition compute_similarities ::
  "PaperSelector \<Rightarrow> ndarray \<Rightarrow> ndarray \<Rightarrow> (error + real list) \<times> PaperSelector" where
  "compute_similarities self paper_embeddings reference_embedding =
     (let reference_embedding =
            (if ndim reference_embedding = 1 then reshape_1_m1 reference_embedding
             else reference_embedding)
      in case cosine_similarity paper_embeddings reference_embedding of
           Inl e \<Rightarrow> (Inl e, self)
         | Inr sims \<Rightarrow>
             (let self = self\<lparr>similarities := Some (flatten sims)\<rparr>
              in (Inr (the (similarities self)), self)))"

definition custom_missing_message :: string where
  "custom_missing_message =
     ''custom_threshold must be provided when method='' @ [CHR 0x27] @ ''custom'' @ [CHR 0x27]"

definition compute_threshold ::
  "PaperSelector \<Rightarrow> string \<Rightarrow> real option \<Rightarrow> (error + real) \<times> PaperSelector" where
  "compute_threshold self method custom_threshold =
     (case similarities self of
        None \<Rightarrow> (Inl (ValueError ''Must compute similarities first''), self)
      | Some sims \<Rightarrow>
          if method = ''custom'' then
            (case custom_threshold of
               None \<Rightarrow> (Inl (ValueError custom_missing_message), self)
             | Some c \<Rightarrow> (Inr c, self\<lparr>threshold := Some c\<rparr>))
          else if method = ''mean_2std'' then
            (let mean = np_mean sims; std = np_std sims; t = mean + 2 * std
             in (Inr t, self\<lparr>threshold := Some t\<rparr>))
          else if method = ''mean_1std'' then
            (let mean = np_mean sims; std = np_std sims; t = mean + 1 * std
             in (Inr t, self\<lparr>threshold := Some t\<rparr>))
          else if method = ''median'' then
            (let t = np_median sims in (Inr t, self\<lparr>threshold := Some t\<rparr>))
          else if method = ''percentile_75'' then
            (let t = np_percentile sims 75 in (Inr t, self\<lparr>threshold := Some t\<rparr>))
          else if method = ''percentile_90'' then
            (let t = np_percentile sims 90 in (Inr t, self\<lparr>threshold := Some t\<rparr>))
          else (Inl (ValueError (''Unknown method: '' @ method)), self))"

definition select_papers ::
  "PaperSelector \<Rightarrow> real option \<Rightarrow> (error + bool list) \<times> PaperSelector" where
  "select_papers self thr =
     (case similarities self of
        None \<Rightarrow> (Inl (ValueError ''Must compute similarities first''), self)
      | Some sims \<Rightarrow>
          (case thr of
             Some t \<Rightarrow>
               (let self = self\<lparr>threshold := Some t\<rparr>
                in (Inr (ge_mask sims (the (threshold self))), self))
           | None \<Rightarrow>
               (case threshold self of
                  None \<Rightarrow>
                    (case compute_threshold self ''mean_2std'' None of
                       (Inl e, self) \<Rightarrow> (Inl e, self)
                     | (Inr _, self) \<Rightarrow> (Inr (ge_mask sims (the (threshold self))), self))
                | Some t \<Rightarrow> (Inr (ge_mask sims t), self))))"

text \<open>The returned \<^verbatim>\<open>dict\<close> is a map from its keys to their values.\<close>

definition get_statistics ::
  "PaperSelector \<Rightarrow> (error + (string \<rightharpoonup> pyval)) \<times> PaperSelector" where
  "get_statistics self =
     (case similarities self of
        None \<Rightarrow> (Inl (ValueError ''Must compute similarities first''), self)
      | Some sims \<Rightarrow>
          (case np_min sims of Inl e \<Rightarrow> (Inl e, self) | Inr mn \<Rightarrow>
           case np_max sims of Inl e \<Rightarrow> (Inl e, self) | Inr mx \<Rightarrow>
             (let stats = map_of
                    [(''count'', PyInt (int (length sims))),
                     (''mean'', PyFloat (np_mean sims)),
                     (''std'', PyFloat (np_std sims)),
                     (''median'', PyFloat (np_median sims)),
                     (''min'', PyFloat mn),
                     (''max'', PyFloat mx),
                     (''q25'', PyFloat (np_percentile sims 25)),
                     (''q75'', PyFloat (np_percentile sims 75)),
                     (''q90'', PyFloat (np_percentile sims 90)),
                     (''q95'', PyFloat (np_percentile sims 95))]
              in case threshold self of
                   None \<Rightarrow> (Inr stats, self)
                 | Some t \<Rightarrow>
                     (let selected_count = np_sum_bool (ge_mask sims t);
                          stats = stats(''threshold'' \<mapsto> PyFloat t);
                          stats = stats(''selected_count'' \<mapsto> PyInt selected_count);
                          stats = stats(''selected_percentage'' \<mapsto>
                                    PyFloat (real_of_int (100 * selected_count) / real (length sims)))
                      in (Inr stats, self)))))"

section \<open>Binary floating point\<close>

text \<open>
  The definitions above compute in exact arithmetic. numpy and Python compute in binary
  floating point: every operation returns the exact result rounded to the nearest number
  with \<open>p\<close> significant bits, ties to the even neighbour (\<open>p = 53\<close> for float64, \<open>p = 24\<close>
  for float32). \<open>fl p\<close> is that rounding; the exponent range is unbounded, so overflow,
  underflow and subnormal numbers are outside the model.
\<close>

definition round_half_even :: "real \<Rightarrow> int" where
  "round_half_even x =
     (let f = \<lfloor>x\<rfloor>; r = x - of_int f
      in if r < 1/2 then f else if 1/2 < r then f + 1 else if even f then f else f + 1)"

definition fl :: "nat \<Rightarrow> real \<Rightarrow> real" where
  "fl p x =
     (if x = 0 then 0
      else (let e = \<lfloor>log 2 \<bar>x\<bar>\<rfloor> - (int p - 1)
            in of_int (round_half_even (x / 2 powi e)) * 2 powi e))"

text \<open>
  \<^verbatim>\<open>np.add.reduce\<close> on a contiguous 1-D array, as \<^verbatim>\<open>np.mean\<close> and \<^verbatim>\<open>np.std\<close> call it: numpy's
  pairwise summation. Fewer than 8 elements are added from left to right; up to 128
  elements are added in 8 interleaved accumulators that are then combined, and the
  remaining elements are added one by one; a longer array is split at a multiple of 8 near
  the middle and the two partial sums are added. \<open>rnd\<close> rounds the result of every addition.
\<close>

function add_blocks :: "(real \<Rightarrow> real) \<Rightarrow> real list \<Rightarrow> real list \<Rightarrow> real list \<times> real list" where
  "add_blocks rnd r xs =
     (if length xs < 8 then (r, xs)
      else add_blocks rnd (map2 (\<lambda>a b. rnd (a + b)) r (take 8 xs)) (drop 8 xs))"
  by pat_completeness auto
termination
  by (relation "measure (\<lambda>(rnd, r, xs). length xs)") auto

definition split_point :: "nat \<Rightarrow> nat" where
  "split_point n = n div 2 - (n div 2) mod 8"

function pairwise_sum :: "(real \<Rightarrow> real) \<Rightarrow> real list \<Rightarrow> real" where
  "pairwise_sum rnd a =
     (if length a < 8 then foldl (\<lambda>res x. rnd (res + x)) 0 a
      else if length a \<le> 128 then
        (case add_blocks rnd (take 8 a) (drop 8 a) of
           (r, rest) \<Rightarrow>
             foldl (\<lambda>res x. rnd (res + x))
               (rnd (rnd (rnd (r ! 0 + r ! 1) + rnd (r ! 2 + r ! 3))
                     + rnd (rnd (r ! 4 + r ! 5) + rnd (r ! 6 + r ! 7))))
               rest)
      else rnd (pairwise_sum rnd (take (split_point (length a)) a)
                + pairwise_sum rnd (drop (split_point (length a)) a)))"
  by pat_completeness auto
termination
proof (relation "measure (\<lambda>(rnd, a). length a)")
  show "wf (measure (\<lambda>(rnd, a). length a))" by simp
next
  fix rnd :: "real \<Rightarrow> real" and a :: "real list"
  assume "\<not> length a < 8" and "\<not> length a \<le> 128"
  then have "split_point (length a) < length a"
    unfolding split_point_def by arith
  then show "((rnd, take (split_point (length a)) a), (rnd, a)) \<in> measure (\<lambda>(rnd, a). length a)"
    by simp
next
  fix rnd :: "real \<Rightarrow> real" and a :: "real list"
  assume "\<not> length a < 8" and "\<not> length a \<le> 128"
  then have "0 < split_point (length a)"
    unfolding split_point_def by arith
  then show "((rnd, drop (split_point (length a)) a), (rnd, a)) \<in> measure (\<lambda>(rnd, a). length a)"
    using \<open>\<not> length a < 8\<close> by simp
qed

declare add_blocks.simps [simp del] pairwise_sum.simps [simp del]

definition add_reduce :: "(real \<Rightarrow> real) \<Rightarrow> real list \<Rightarrow> real" where
  "add_reduce rnd a = rnd (0 + pairwise_sum rnd a)"

text \<open>\<^verbatim>\<open>np.mean\<close> and \<^verbatim>\<open>np.std\<close> with every operation rounded by \<open>rnd\<close>.\<close>

definition np_mean_fp :: "(real \<Rightarrow> real) \<Rightarrow> real list \<Rightarrow> real" where
  "np_mean_fp rnd a = rnd (add_reduce rnd a / real (length a))"

definition np_std_fp :: "(real \<Rightarrow> real) \<Rightarrow> real list \<Rightarrow> real" where
  "np_std_fp rnd a =
     (let arrmean = rnd (add_reduce rnd a / real (length a));
          x = map (\<lambda>v. rnd (v - arrmean)) a;
          x = map (\<lambda>v. rnd (v * v)) x;
          ret = add_reduce rnd x;
          ret = rnd (ret / real (length a))
      in rnd (sqrt ret))"

text \<open>
  \<^verbatim>\<open>compute_threshold\<close> once more, with the arithmetic of \<^verbatim>\<open>np.mean\<close>, \<^verbatim>\<open>np.std\<close> and of
  \<^verbatim>\<open>mean + 2 * std\<close> rounded by \<open>rnd\<close>. \<^verbatim>\<open>np.median\<close> and \<^verbatim>\<open>np.percentile\<close> are parameters:
  their rounding is not modelled. With no rounding and the exact median and percentile
  this is \<open>compute_threshold\<close> (lemma \<open>compute_threshold_fp_exact\<close>).
\<close>

definition compute_threshold_fp ::
  "(real \<Rightarrow> real) \<Rightarrow> (real list \<Rightarrow> real) \<Rightarrow> (real list \<Rightarrow> real \<Rightarrow> real)
     \<Rightarrow> PaperSelector \<Rightarrow> string \<Rightarrow> real option \<Rightarrow> (error + real) \<times> PaperSelector" where
  "compute_threshold_fp rnd median percentile self method custom_threshold =
     (case similarities self of
        None \<Rightarrow> (Inl (ValueError ''Must compute similarities first''), self)
      | Some sims \<Rightarrow>
          if method = ''custom'' then
            (case custom_threshold of
               None \<Rightarrow> (Inl (ValueError custom_missing_message), self)
             | Some c \<Rightarrow> (Inr c, self\<lparr>threshold := Some c\<rparr>))
          else if method = ''mean_2std'' then
            (let mean = np_mean_fp rnd sims; std = np_std_fp rnd sims;
                 t = rnd (mean + rnd (2 * std))
             in (Inr t, self\<lparr>threshold := Some t\<rparr>))
          else if method = ''mean_1std'' then
            (let mean = np_mean_fp rnd sims; std = np_std_fp rnd sims;
                 t = rnd (mean + rnd (1 * std))
             in (Inr t, self\<lparr>threshold := Some t\<rparr>))
          else if method = ''median'' then
            (let t = median sims in (Inr t, self\<lparr>threshold := Some t\<rparr>))
          else if method = ''percentile_75'' then
            (let t = percentile sims 75 in (Inr t, self\<lparr>threshold := Some t\<rparr>))
          else if method = ''percentile_90'' then
            (let t = percentile sims 90 in (Inr t, self\<lparr>threshold := Some t\<rparr>))
          else (Inl (ValueError (''Unknown method: '' @ method)), self))"

section \<open>The specification's statistics\<close>

text \<open>
  The quantities the specification names, written from its words and independently of
  numpy: the mean, the population standard deviation (the variance divides by \<open>n\<close>), the
  median (the middle value of the sorted scores, or the average of the two middle
  values) and the percentile with linear interpolation between the two closest ranks.
  The operations above are compared with them.
\<close>

definition spec_mean :: "real list \<Rightarrow> real" where
  "spec_mean xs = sum_list xs / real (length xs)"

definition spec_population_std :: "real list \<Rightarrow> real" where
  "spec_population_std xs = sqrt ((\<Sum>x\<leftarrow>xs. (x - spec_mean xs)\<^sup>2) / real (length xs))"

definition spec_median :: "real list \<Rightarrow> real" where
  "spec_median xs =
     (let s = sort xs; n = length xs
      in if odd n then s ! (n div 2) else (s ! (n div 2 - 1) + s ! (n div 2)) / 2)"

definition spec_linear_percentile :: "real list \<Rightarrow> real \<Rightarrow> real" where
  "spec_linear_percentile xs p =
     (let s = sort xs;
          h = p / 100 * (real (length xs) - 1);
          lo = nat \<lfloor>h\<rfloor>;
          hi = nat \<lceil>h\<rceil>
      in s ! lo + (h - real lo) * (s ! hi - s ! lo))"

text \<open>The keys \<^verbatim>\<open>get_statistics\<close> always reports.\<close>

abbreviation base_keys :: "string set" where
  "base_keys \<equiv> {''count'', ''mean'', ''std'', ''median'', ''min'', ''max'',
                 ''q25'', ''q75'', ''q90'', ''q95''}"

section \<open>Failure before any score exists\<close>

text \<open>
  Claim C6. On a selector that holds no score vector, \<^verbatim>\<open>compute_threshold\<close>,
  \<^verbatim>\<open>select_papers\<close> and \<^verbatim>\<open>get_statistics\<close> each raise the error "Must compute
  similarities first" (the specification's PrecursorMissingError), whatever their
  arguments, and the selector is the same after the failed call.
\<close>

theorem precursor_missing:
  assumes "similarities self = None"
  shows "compute_threshold self method custom = (Inl (ValueError ''Must compute similarities first''), self)
       \<and> select_papers self thr = (Inl (ValueError ''Must compute similarities first''), self)
       \<and> get_statistics self = (Inl (ValueError ''Must compute similarities first''), self)"
  using assms by (simp add: compute_threshold_def select_papers_def get_statistics_def)

theorem precursor_missing_witness:
  "similarities PaperSelector_init = None
   \<and> compute_threshold PaperSelector_init ''median'' None
       = (Inl (ValueError ''Must compute similarities first''), PaperSelector_init)
   \<and> select_papers PaperSelector_init (Some (1/2))
       = (Inl (ValueError ''Must compute similarities first''), PaperSelector_init)
   \<and> get_statistics PaperSelector_init
       = (Inl (ValueError ''Must compute similarities first''), PaperSelector_init)"
proof -
  have h: "similarities PaperSelector_init = None"
    by (simp add: PaperSelector_init_def)
  from precursor_missing [OF h, of "''median''" None "Some (1/2)"] h show ?thesis
    by simp
qed

section \<open>Configuration errors of \<^verbatim>\<open>compute_threshold\<close>\<close>

text \<open>
  Claim C7. With scores set, \<^verbatim>\<open>compute_threshold\<close> called with method "custom" and no
  custom value raises the error "custom_threshold must be provided when
  method='custom'" (the specification's MissingArgumentError), and called with a method
  name outside the six recognised ones it raises "Unknown method: <name>" (the
  specification's UnknownPolicyError). In both cases nothing is substituted: the call
  fails and the selector, its stored threshold included, is unchanged.
\<close>

theorem config_errors:
  assumes "similarities self = Some sims"
  shows "compute_threshold self ''custom'' None = (Inl (ValueError custom_missing_message), self)
       \<and> (method \<notin> {''mean_2std'', ''mean_1std'', ''median'', ''percentile_75'',
                      ''percentile_90'', ''custom''}
            \<longrightarrow> compute_threshold self method custom
                  = (Inl (ValueError (''Unknown method: '' @ method)), self))"
  using assms by (simp add: compute_threshold_def)

theorem config_errors_witness:
  "compute_threshold \<lparr>similarities = Some [1/2], threshold = Some 3\<rparr> ''custom'' None
     = (Inl (ValueError custom_missing_message), \<lparr>similarities = Some [1/2], threshold = Some 3\<rparr>)
   \<and> compute_threshold \<lparr>similarities = Some [1/2], threshold = Some 3\<rparr> ''top_10'' (Some 1)
     = (Inl (ValueError ''Unknown method: top_10''), \<lparr>similarities = Some [1/2], threshold = Some 3\<rparr>)"
  using config_errors [of "\<lparr>similarities = Some [1/2], threshold = Some 3\<rparr>" "[1/2]" "''top_10''" "Some 1"]
  by simp

section \<open>Similarity scoring\<close>

subsection \<open>What a successful call computes\<close>

lemma check_array_Inr:
  "check_array a = Inr M \<Longrightarrow> a = Array2 M \<and> M \<noteq> [] \<and> hd M \<noteq> []"
  by (auto simp: check_array_def split: ndarray.splits list.splits if_splits)

lemma check_array_ok:
  "M \<noteq> [] \<Longrightarrow> hd M \<noteq> [] \<Longrightarrow> check_array (Array2 M) = Inr M"
  by (cases M) (simp_all add: check_array_def)

lemma cosine_similarity_Inr:
  assumes "cosine_similarity X Y = Inr K"
  obtains X' Y' where "X = Array2 X'" "Y = Array2 Y'" "X' \<noteq> []" "Y' \<noteq> []"
    "hd X' \<noteq> []" "length (hd X') = length (hd Y')"
    "K = map (\<lambda>x. map (\<lambda>y. dot x y) (normalize_rows Y')) (normalize_rows X')"
  using assms
  by (auto simp: cosine_similarity_def check_pairwise_arrays_def Let_def
      split: sum.splits prod.splits if_splits dest!: check_array_Inr)

lemma cosine_similarity_ok:
  assumes "X \<noteq> []" "Y \<noteq> []" "hd X \<noteq> []" "length (hd X) = length (hd Y)"
  shows "cosine_similarity (Array2 X) (Array2 Y)
         = Inr (map (\<lambda>x. map (\<lambda>y. dot x y) (normalize_rows Y)) (normalize_rows X))"
proof -
  from assms have "hd Y \<noteq> []" by auto
  with assms show ?thesis
    by (simp add: cosine_similarity_def check_pairwise_arrays_def check_array_ok)
qed

lemma hd_row_length:
  "X \<noteq> [] \<Longrightarrow> \<forall>row\<in>set X. length row = d \<Longrightarrow> length (hd X) = d"
  by (cases X) simp_all

lemma length_normalize_rows: "length (normalize_rows X) = length X"
  by (simp add: normalize_rows_def)

lemma length_flatten_product:
  "length (flatten (map (\<lambda>x. map (f x) ys) xs)) = length xs * length ys"
  by (induction xs) (simp_all add: flatten_def)

lemma flatten_single_column:
  "flatten (map (\<lambda>x. map (f x) [y]) xs) = map (\<lambda>x. f x y) xs"
  by (induction xs) (simp_all add: flatten_def)

lemma dot_zero_row: "\<forall>x\<in>set u. x = 0 \<Longrightarrow> dot u v = 0"
proof (induction u arbitrary: v)
  case Nil
  then show ?case by (simp add: dot_def)
next
  case (Cons a u)
  then show ?case by (cases v) (simp_all add: dot_def)
qed

lemma compute_similarities_Inr:
  assumes "compute_similarities self P R = (Inr sc, self')"
  shows "self' = self\<lparr>similarities := Some sc\<rparr>"
  using assms
  by (auto simp: compute_similarities_def Let_def split: sum.splits)

text \<open>A stored score vector is never empty: the validation of \<^verbatim>\<open>cosine_similarity\<close>
  rejects arrays without rows.\<close>

lemma compute_similarities_nonempty:
  assumes "compute_similarities self P R = (Inr sc, self')"
  shows "sc \<noteq> []"
proof -
  from assms obtain R' K where K: "cosine_similarity P R' = Inr K" and sc: "sc = flatten K"
    by (auto simp: compute_similarities_def Let_def split: sum.splits)
  from K obtain X' Y' where "X' \<noteq> []" "Y' \<noteq> []"
    and "K = map (\<lambda>x. map (\<lambda>y. dot x y) (normalize_rows Y')) (normalize_rows X')"
    by (rule cosine_similarity_Inr)
  then have "length sc = length X' * length Y'"
    by (simp add: sc length_flatten_product length_normalize_rows)
  with \<open>X' \<noteq> []\<close> \<open>Y' \<noteq> []\<close> show ?thesis by auto
qed

lemma compute_similarities_threshold:
  "threshold (snd (compute_similarities self P R)) = threshold self"
  by (simp add: compute_similarities_def Let_def split: sum.splits)

lemma compute_similarities_2d:
  assumes "X \<noteq> []" "Y \<noteq> []" "hd X \<noteq> []" "length (hd X) = length (hd Y)"
  shows "compute_similarities self (Array2 X) (Array2 Y)
     = (Inr (flatten (map (\<lambda>x. map (\<lambda>y. dot x y) (normalize_rows Y)) (normalize_rows X))),
        self\<lparr>similarities := Some (flatten (map (\<lambda>x. map (\<lambda>y. dot x y) (normalize_rows Y)) (normalize_rows X)))\<rparr>)"
  using assms by (simp add: compute_similarities_def ndim_def cosine_similarity_ok)

lemma compute_similarities_1d:
  assumes "X \<noteq> []" "hd X \<noteq> []" "length (hd X) = length v"
  shows "compute_similarities self (Array2 X) (Array1 v)
     = (Inr (map (\<lambda>x. dot x (hd (normalize_rows [v]))) (normalize_rows X)),
        self\<lparr>similarities := Some (map (\<lambda>x. dot x (hd (normalize_rows [v]))) (normalize_rows X))\<rparr>)"
proof -
  have "normalize_rows [v] = [hd (normalize_rows [v])]"
    by (simp add: normalize_rows_def)
  then have "flatten (map (\<lambda>x. map (\<lambda>y. dot x y) (normalize_rows [v])) (normalize_rows X))
      = map (\<lambda>x. dot x (hd (normalize_rows [v]))) (normalize_rows X)"
    using flatten_single_column [of dot "hd (normalize_rows [v])" "normalize_rows X"]
    by simp
  with assms show ?thesis
    by (simp add: compute_similarities_def ndim_def reshape_1_m1_def cosine_similarity_ok)
qed

subsection \<open>A reference with several rows\<close>

text \<open>
  Claim C10. \<^verbatim>\<open>compute_similarities\<close> reshapes the reference only when it is
  1-dimensional. A 2-dimensional reference with \<open>k\<close> rows of the documents' width is
  accepted, and the flattened result then has \<open>n * k\<close> entries for \<open>n\<close> documents; a
  1-dimensional reference (and so a 2-dimensional one with a single row) gives
  exactly \<open>n\<close> entries, one per document.
\<close>

theorem reference_rows_multiply_scores:
  assumes "X \<noteq> []" and "\<forall>row\<in>set X. length row = d" and "0 < d"
  shows "(Y \<noteq> [] \<and> (\<forall>row\<in>set Y. length row = d) \<longrightarrow>
           (\<exists>sc. compute_similarities self (Array2 X) (Array2 Y)
                    = (Inr sc, self\<lparr>similarities := Some sc\<rparr>)
                \<and> length sc = length X * length Y))
       \<and> (length v = d \<longrightarrow>
           (\<exists>sc. compute_similarities self (Array2 X) (Array1 v)
                    = (Inr sc, self\<lparr>similarities := Some sc\<rparr>)
                \<and> length sc = length X))"
proof -
  have hd1: "length (hd X) = d"
    using assms(1,2) by (rule hd_row_length)
  with assms(3) have hd2: "hd X \<noteq> []" by auto
  show ?thesis
  proof (intro conjI impI)
    assume Y: "Y \<noteq> [] \<and> (\<forall>row\<in>set Y. length row = d)"
    then have "length (hd X) = length (hd Y)"
      using hd1 hd_row_length [of Y d] by auto
    with assms(1) hd2 Y show "\<exists>sc. compute_similarities self (Array2 X) (Array2 Y)
                    = (Inr sc, self\<lparr>similarities := Some sc\<rparr>)
                \<and> length sc = length X * length Y"
      by (simp add: compute_similarities_2d length_flatten_product length_normalize_rows)
  next
    assume "length v = d"
    with assms(1) hd1 hd2 show "\<exists>sc. compute_similarities self (Array2 X) (Array1 v)
                    = (Inr sc, self\<lparr>similarities := Some sc\<rparr>)
                \<and> length sc = length X"
      by (simp add: compute_similarities_1d length_normalize_rows)
  qed
qed

theorem reference_rows_multiply_scores_witness:
  "(\<exists>sc. compute_similarities PaperSelector_init (Array2 [[1, 0], [0, 1]])
            (Array2 [[1, 0], [0, 1], [1, 0]])
          = (Inr sc, PaperSelector_init\<lparr>similarities := Some sc\<rparr>) \<and> length sc = 6)
   \<and> (\<exists>sc. compute_similarities PaperSelector_init (Array2 [[1, 0], [0, 1]]) (Array1 [1, 0])
          = (Inr sc, PaperSelector_init\<lparr>similarities := Some sc\<rparr>) \<and> length sc = 2)"
  using reference_rows_multiply_scores
    [of "[[1, 0], [0, 1]]" 2 "[[1, 0], [0, 1], [1, 0]]" PaperSelector_init "[1, 0]"]
  by (simp add: eval_nat_numeral)

subsection \<open>A document whose vector is all zero\<close>

text \<open>
  Claim C1 says that a document matrix with an all-zero row makes
  \<^verbatim>\<open>compute_similarities\<close> fail with a DegenerateVectorError naming the row. The code
  has no such check: it passes the matrix to \<^verbatim>\<open>cosine_similarity\<close>, whose
  normalisation leaves a zero row unchanged, and the call succeeds with score 0 for
  that row.

  Claim C1, as amended. For every document matrix with at least one row and \<open>d > 0\<close>
  columns and every reference vector of length \<open>d\<close>: if row \<open>i\<close> of the matrix is
  all zero, \<^verbatim>\<open>compute_similarities\<close> does not fail; it stores and returns one score per
  row, and the score of row \<open>i\<close> is 0.
\<close>

theorem zero_row_scores_zero:
  assumes "X \<noteq> []" and "\<forall>row\<in>set X. length row = d" and "0 < d" and "length v = d"
    and "i < length X" and "\<forall>x\<in>set (X ! i). x = 0"
  shows "\<exists>sc. compute_similarities self (Array2 X) (Array1 v)
                 = (Inr sc, self\<lparr>similarities := Some sc\<rparr>)
             \<and> length sc = length X \<and> sc ! i = 0"
proof -
  have hd1: "length (hd X) = d"
    using assms(1,2) by (rule hd_row_length)
  with assms(3) have hd2: "hd X \<noteq> []" by auto
  from hd1 assms(4) have hd3: "length (hd X) = length v" by simp
  have "\<forall>x\<in>set (normalize_rows X ! i). x = 0"
    using assms(5,6) by (auto simp: normalize_rows_def)
  then have "dot (normalize_rows X ! i) (hd (normalize_rows [v])) = 0"
    by (rule dot_zero_row)
  with assms(1,5) hd2 hd3 show ?thesis
    by (simp add: compute_similarities_1d length_normalize_rows)
qed

theorem zero_row_scores_zero_witness:
  "\<exists>sc. compute_similarities PaperSelector_init (Array2 [[3, 4], [0, 0], [1, 1]]) (Array1 [1, 0])
           = (Inr sc, PaperSelector_init\<lparr>similarities := Some sc\<rparr>)
       \<and> length sc = 3 \<and> sc ! 1 = 0"
  using zero_row_scores_zero [of "[[3, 4], [0, 0], [1, 1]]" 2 "[1, 0]" 1 PaperSelector_init]
  by (simp add: eval_nat_numeral)

theorem zero_row_counterexample:
  "compute_similarities PaperSelector_init (Array2 [[0, 0], [1, 0]]) (Array1 [1, 0])
     = (Inr [0, 1], \<lparr>similarities = Some [0, 1], threshold = None\<rparr>)"
  by (simp add: compute_similarities_def ndim_def reshape_1_m1_def cosine_similarity_def
      check_pairwise_arrays_def check_array_def normalize_rows_def row_norm_def
      handle_zeros_in_scale_def dot_def flatten_def PaperSelector_init_def)

subsection \<open>A reference of the wrong length\<close>

text \<open>
  Claim C5. When the reference vector's length \<open>d'\<close> differs from the documents'
  column count \<open>d\<close>, \<^verbatim>\<open>compute_similarities\<close> fails in the validation of
  \<^verbatim>\<open>cosine_similarity\<close>, before any similarity is computed: nothing is returned, nothing
  is stored, and the arrays are neither truncated nor padded. For a matrix with at least
  one row and positive \<open>d\<close> and \<open>d'\<close> the error is the dimension-mismatch error
  "Incompatible dimension for X and Y matrices" (a matrix without rows or an array
  without columns is rejected by the earlier checks of the same validation).
\<close>

theorem dimension_mismatch_fails:
  assumes "\<forall>row\<in>set X. length row = d" and "length v = d'" and "d' \<noteq> d"
  shows "(\<exists>e. compute_similarities self (Array2 X) (Array1 v) = (Inl e, self))
       \<and> (X \<noteq> [] \<and> 0 < d \<and> 0 < d' \<longrightarrow>
            compute_similarities self (Array2 X) (Array1 v)
              = (Inl (ValueError ''Incompatible dimension for X and Y matrices''), self))"
proof (cases X)
  case Nil
  then show ?thesis
    by (simp add: compute_similarities_def ndim_def reshape_1_m1_def cosine_similarity_def
        check_pairwise_arrays_def check_array_def)
next
  case (Cons r rs)
  with assms have "length r = d" by simp
  with Cons assms(2,3) show ?thesis
    by (simp add: compute_similarities_def ndim_def reshape_1_m1_def cosine_similarity_def
        check_pairwise_arrays_def check_array_def)
qed

theorem dimension_mismatch_fails_witness:
  "compute_similarities PaperSelector_init (Array2 [[1, 2, 3], [4, 5, 6]]) (Array1 [1, 2])
     = (Inl (ValueError ''Incompatible dimension for X and Y matrices''), PaperSelector_init)"
  using dimension_mismatch_fails [of "[[1, 2, 3], [4, 5, 6]]" 3 "[1, 2]" 2 PaperSelector_init]
  by simp

section \<open>numpy's reductions compute the specification's statistics\<close>

lemma np_mean_spec: "np_mean xs = spec_mean xs"
  by (simp add: np_mean_def spec_mean_def)

lemma np_std_spec: "np_std xs = spec_population_std xs"
  by (simp add: np_std_def spec_population_std_def np_mean_spec Let_def comp_def power2_eq_square)

lemma np_median_spec: "np_median xs = spec_median xs"
  by (simp add: np_median_def spec_median_def np_mean_def Let_def odd_iff_mod_2_eq_one)

subsection \<open>Percentiles\<close>

text \<open>The interpolated value lies between the two sorted entries it is taken from, and
  it grows with the rank.\<close>

lemma lerp_bounds:
  fixes a b g :: real
  assumes "a \<le> b" "0 \<le> g" "g \<le> 1"
  shows "a \<le> a + (b - a) * g" "a + (b - a) * g \<le> b"
proof -
  from assms show "a \<le> a + (b - a) * g" by simp
  have "(b - a) * g \<le> (b - a) * 1"
    using assms by (intro mult_left_mono) simp_all
  then show "a + (b - a) * g \<le> b" by simp
qed

lemma np_percentile_bounds:
  assumes "a \<noteq> []" "0 \<le> q" "q \<le> 100"
  defines "h \<equiv> real (length a - 1) * (q / 100)"
  shows "sort a ! nat \<lfloor>h\<rfloor> \<le> np_percentile a q"
    and "np_percentile a q \<le> sort a ! min (nat \<lfloor>h\<rfloor> + 1) (length a - 1)"
    and "nat \<lfloor>h\<rfloor> \<le> length a - 1"
proof -
  let ?n = "length a"
  let ?i = "nat \<lfloor>h\<rfloor>"
  let ?j = "min (?i + 1) (?n - 1)"
  have h0: "0 \<le> h" using assms(2) by (simp add: h_def)
  have "h \<le> real (?n - 1) * 1"
    unfolding h_def using assms(3) by (intro mult_left_mono) simp_all
  then have hn: "h \<le> real (?n - 1)" by simp
  then have "\<lfloor>h\<rfloor> \<le> int (?n - 1)" by (simp add: floor_le_iff)
  then show i: "?i \<le> ?n - 1" by simp
  from assms(1) have n: "0 < ?n" by simp
  have ij: "?i \<le> ?j" using i by simp
  have jn: "?j < length (sort a)" unfolding length_sort using n by arith
  have le: "sort a ! ?i \<le> sort a ! ?j"
    using sorted_sort ij jn by (rule sorted_nth_mono)
  have ri: "real ?i = of_int \<lfloor>h\<rfloor>" using h0 by simp
  have g0: "0 \<le> h - real ?i" unfolding ri by simp
  have g1: "h - real ?i \<le> 1" unfolding ri by linarith
  have eq: "np_percentile a q = sort a ! ?i + (sort a ! ?j - sort a ! ?i) * (h - real ?i)"
    by (simp add: np_percentile_def Let_def h_def)
  show "sort a ! ?i \<le> np_percentile a q"
    unfolding eq using le g0 g1 by (rule lerp_bounds)
  show "np_percentile a q \<le> sort a ! ?j"
    unfolding eq using le g0 g1 by (rule lerp_bounds)
qed

lemma np_percentile_mono:
  assumes "a \<noteq> []" "0 \<le> q1" "q1 \<le> q2" "q2 \<le> 100"
  shows "np_percentile a q1 \<le> np_percentile a q2"
proof -
  let ?n = "length a"
  define h1 where "h1 = real (?n - 1) * (q1 / 100)"
  define h2 where "h2 = real (?n - 1) * (q2 / 100)"
  let ?i1 = "nat \<lfloor>h1\<rfloor>" and ?i2 = "nat \<lfloor>h2\<rfloor>"
  have q1: "q1 \<le> 100" and q2: "0 \<le> q2" using assms by simp_all
  have h12: "h1 \<le> h2"
    unfolding h1_def h2_def using assms(3) by (intro mult_left_mono) simp_all
  then have i12: "?i1 \<le> ?i2" by (simp add: floor_mono nat_mono)
  from assms(1) have n: "0 < ?n" by simp
  have i2n: "?i2 \<le> ?n - 1"
    using np_percentile_bounds(3) [OF assms(1) q2 assms(4)] by (simp add: h2_def)
  show ?thesis
  proof (cases "?i1 = ?i2")
    case True
    let ?j = "min (?i2 + 1) (?n - 1)"
    have ij: "?i2 \<le> ?j" using i2n by simp
    have jn: "?j < length (sort a)" unfolding length_sort using n by arith
    have le: "sort a ! ?i2 \<le> sort a ! ?j"
      using sorted_sort ij jn by (rule sorted_nth_mono)
    have e1: "np_percentile a q1 = sort a ! ?i2 + (sort a ! ?j - sort a ! ?i2) * (h1 - real ?i2)"
      using True by (simp add: np_percentile_def Let_def h1_def)
    have e2: "np_percentile a q2 = sort a ! ?i2 + (sort a ! ?j - sort a ! ?i2) * (h2 - real ?i2)"
      by (simp add: np_percentile_def Let_def h2_def)
    have "(sort a ! ?j - sort a ! ?i2) * (h1 - real ?i2) \<le> (sort a ! ?j - sort a ! ?i2) * (h2 - real ?i2)"
      using le h12 by (intro mult_left_mono) simp_all
    then show ?thesis unfolding e1 e2 by simp
  next
    case False
    with i12 have lt: "?i1 + 1 \<le> ?i2" by simp
    let ?j1 = "min (?i1 + 1) (?n - 1)"
    have "np_percentile a q1 \<le> sort a ! ?j1"
      using np_percentile_bounds(2) [OF assms(1,2) q1] by (simp add: h1_def)
    also have "sort a ! ?j1 \<le> sort a ! ?i2"
    proof (rule sorted_nth_mono [OF sorted_sort])
      show "?j1 \<le> ?i2" using lt by simp
      show "?i2 < length (sort a)" unfolding length_sort using i2n n by arith
    qed
    also have "sort a ! ?i2 \<le> np_percentile a q2"
      using np_percentile_bounds(1) [OF assms(1) q2 assms(4)] by (simp add: h2_def)
    finally show ?thesis .
  qed
qed

lemma np_median_percentile:
  assumes "a \<noteq> []"
  shows "np_median a = np_percentile a 50"
proof (cases "odd (length a)")
  case True
  then obtain k where k: "length a = 2 * k + 1" by (auto elim: oddE)
  have h: "real (length a - 1) * (50 / 100) = real k" by (simp add: k)
  show ?thesis
    by (simp add: np_median_def np_percentile_def Let_def np_mean_def h) (simp add: k)
next
  case False
  then obtain k where k: "length a = 2 * k" by (auto elim: evenE)
  with assms have k0: "0 < k" by (cases k) auto
  then obtain m where m: "k = Suc m" by (cases k) simp_all
  have vi: "real (length a - 1) * (50 / 100) = real m + 1/2" by (simp add: k m)
  have "\<lfloor>real m + 1/2\<rfloor> = int m" by linarith
  then have pi: "nat \<lfloor>real m + 1/2\<rfloor> = m" by simp
  have ni: "min (m + 1) (length a - 1) = m + 1" by (simp add: k m)
  have "np_percentile a 50 = sort a ! m + (sort a ! (m + 1) - sort a ! m) * (real m + 1/2 - real m)"
    by (simp only: np_percentile_def Let_def vi pi ni)
  also have "\<dots> = (sort a ! m + sort a ! (m + 1)) / 2"
    by (simp add: field_simps)
  also have "\<dots> = np_median a"
    by (simp add: np_median_def Let_def np_mean_def k m)
  finally show ?thesis by simp
qed

lemma np_percentile_spec:
  assumes "a \<noteq> []" "0 \<le> q" "q \<le> 100"
  shows "np_percentile a q = spec_linear_percentile a q"
proof -
  let ?n = "length a"
  define h where "h = real (?n - 1) * (q / 100)"
  from assms(1) have n: "0 < ?n" by simp
  have "real (?n - 1) = real ?n - 1"
    using assms(1) by (cases a) simp_all
  then have h': "q / 100 * (real ?n - 1) = h"
    by (simp add: h_def mult.commute)
  have h0: "0 \<le> h" using assms(2) by (simp add: h_def)
  have "h \<le> real (?n - 1) * 1"
    unfolding h_def using assms(3) by (intro mult_left_mono) simp_all
  then have hn: "h \<le> real (?n - 1)" by simp
  have ri: "real (nat \<lfloor>h\<rfloor>) = of_int \<lfloor>h\<rfloor>" using h0 by simp
  have L: "spec_linear_percentile a q
      = sort a ! nat \<lfloor>h\<rfloor> + (h - real (nat \<lfloor>h\<rfloor>)) * (sort a ! nat \<lceil>h\<rceil> - sort a ! nat \<lfloor>h\<rfloor>)"
    by (simp only: spec_linear_percentile_def Let_def h')
  have N: "np_percentile a q
      = sort a ! nat \<lfloor>h\<rfloor> + (sort a ! min (nat \<lfloor>h\<rfloor> + 1) (?n - 1) - sort a ! nat \<lfloor>h\<rfloor>) * (h - real (nat \<lfloor>h\<rfloor>))"
    by (simp add: np_percentile_def Let_def h_def)
  show ?thesis
  proof (cases "h = of_int \<lfloor>h\<rfloor>")
    case True
    then have "h - real (nat \<lfloor>h\<rfloor>) = 0" using ri by simp
    then show ?thesis unfolding L N by simp
  next
    case False
    then have c: "\<lceil>h\<rceil> = \<lfloor>h\<rfloor> + 1"
      by (metis ceiling_altdef)
    have "of_int \<lfloor>h\<rfloor> < h" using False of_int_floor_le [of h] by linarith
    with hn have "of_int \<lfloor>h\<rfloor> < real (?n - 1)" by simp
    then have "\<lfloor>h\<rfloor> < int (?n - 1)" by simp
    moreover have "0 \<le> \<lfloor>h\<rfloor>" using h0 by simp
    ultimately have "nat \<lfloor>h\<rfloor> < ?n - 1" by (simp add: nat_less_iff)
    then have lt: "nat \<lfloor>h\<rfloor> + 1 \<le> ?n - 1" by simp
    have "nat \<lceil>h\<rceil> = nat \<lfloor>h\<rfloor> + 1"
      unfolding c using h0 by (simp add: nat_add_distrib)
    then show ?thesis unfolding L N using lt by (simp add: min_absorb1 mult.commute)
  qed
qed

lemma np_sum_bool_count:
  "np_sum_bool (ge_mask sims t) = int (length (filter (\<lambda>x. x \<ge> t) sims))"
  by (induction sims) (simp_all add: np_sum_bool_def ge_mask_def)

lemma np_min_Min: "sims \<noteq> [] \<Longrightarrow> np_min sims = Inr (Min (set sims))"
  by (cases sims) (simp_all add: np_min_def Min.set_eq_fold [symmetric])

lemma np_max_Max: "sims \<noteq> [] \<Longrightarrow> np_max sims = Inr (Max (set sims))"
  by (cases sims) (simp_all add: np_max_def Max.set_eq_fold [symmetric])

section \<open>Properties of the rounded arithmetic\<close>

subsection \<open>Rounding\<close>

lemma round_half_even_of_int: "round_half_even (of_int n) = n"
  by (simp add: round_half_even_def)

lemma two_powr_of_int: "(2::real) powr of_int k = 2 powi k"
  by (auto simp: powr_real_of_int power_int_def power_one_over inverse_eq_divide)

lemma floor_log2_eq:
  assumes "2 powi k \<le> x" and "x < 2 powi (k + 1)"
  shows "\<lfloor>log 2 x\<rfloor> = k"
proof -
  have "0 < (2::real) powi k" by simp
  with assms(1) have x: "0 < x" by linarith
  have "2 powr of_int k \<le> x \<and> x < 2 powr (of_int k + 1)"
    using assms two_powr_of_int [of k] two_powr_of_int [of "k + 1"] by simp
  with x show ?thesis
    by (simp add: floor_log_eq_powr_iff)
qed

lemma fl_eval:
  assumes "2 powi (e + int p - 1) \<le> \<bar>x\<bar>" and "\<bar>x\<bar> < 2 powi (e + int p)"
  shows "fl p x = of_int (round_half_even (x / 2 powi e)) * 2 powi e"
proof -
  have "0 < (2::real) powi (e + int p - 1)" by simp
  with assms(1) have "0 < \<bar>x\<bar>" by linarith
  then have x: "x \<noteq> 0" by simp
  have "\<lfloor>log 2 \<bar>x\<bar>\<rfloor> = e + int p - 1"
    using assms by (intro floor_log2_eq) simp_all
  then have "\<lfloor>log 2 \<bar>x\<bar>\<rfloor> - (int p - 1) = e" by simp
  with x show ?thesis by (simp add: fl_def Let_def)
qed

lemma fl_eval_div:
  assumes "0 < p" and "2 ^ (p - 1) \<le> \<bar>x\<bar> * 2 ^ k" and "\<bar>x\<bar> * 2 ^ k < 2 ^ p"
  shows "fl p x = of_int (round_half_even (x * 2 ^ k)) / 2 ^ k"
proof -
  have pk: "(2::real) powi (- int k) = 1 / 2 ^ k"
    by (simp add: power_int_minus_divide)
  have "- int k + int p - 1 = int (p - 1) + (- int k)"
    using assms(1) by simp
  moreover have "(2::real) powi (int (p - 1) + (- int k)) = 2 powi int (p - 1) * 2 powi (- int k)"
    by (rule power_int_add) simp
  ultimately have "(2::real) powi (- int k + int p - 1) = 2 powi int (p - 1) * 2 powi (- int k)"
    by (simp only:)
  then have a: "(2::real) powi (- int k + int p - 1) = 2 ^ (p - 1) / 2 ^ k"
    by (simp only: pk power_int_of_nat) simp
  have "- int k + int p = int p + (- int k)"
    by simp
  moreover have "(2::real) powi (int p + (- int k)) = 2 powi int p * 2 powi (- int k)"
    by (rule power_int_add) simp
  ultimately have "(2::real) powi (- int k + int p) = 2 powi int p * 2 powi (- int k)"
    by (simp only:)
  then have b: "(2::real) powi (- int k + int p) = 2 ^ p / 2 ^ k"
    by (simp only: pk power_int_of_nat) simp
  have k0: "0 < (2::real) ^ k" by simp
  have 1: "2 powi (- int k + int p - 1) \<le> \<bar>x\<bar>"
    unfolding a using assms(2) k0 by (simp only: pos_divide_le_eq)
  have 2: "\<bar>x\<bar> < 2 powi (- int k + int p)"
    unfolding b using assms(3) k0 by (simp only: pos_less_divide_eq)
  have "fl p x = of_int (round_half_even (x / 2 powi (- int k))) * 2 powi (- int k)"
    using 1 2 by (rule fl_eval)
  then show ?thesis
    by (simp only: pk) simp
qed

lemma fl_zero: "fl p 0 = 0"
  by (simp add: fl_def)

lemma fl_exact:
  assumes "\<bar>m\<bar> < 2 ^ p"
  shows "fl p (of_int m * 2 powi e) = of_int m * 2 powi e"
proof (cases "m = 0")
  case True
  then show ?thesis by (simp add: fl_def)
next
  case False
  define x :: real where "x = of_int m * 2 powi e"
  define k where "k = \<lfloor>log 2 \<bar>x\<bar>\<rfloor>"
  have x0: "x \<noteq> 0" using False by (simp add: x_def)
  then have ax: "0 < \<bar>x\<bar>" by simp
  have "2 powr of_int k \<le> \<bar>x\<bar>"
    using ax floor_log_eq_powr_iff [of "\<bar>x\<bar>" 2 k] by (simp add: k_def)
  then have lo: "2 powi k \<le> \<bar>x\<bar>" by (simp add: two_powr_of_int)
  have "real_of_int \<bar>m\<bar> < 2 ^ p"
    using assms by (metis of_int_less_iff of_int_numeral of_int_power)
  then have "\<bar>x\<bar> < 2 ^ p * 2 powi e"
    by (simp add: x_def abs_mult)
  also have "\<dots> = 2 powi (int p + e)"
    by (simp add: power_int_add)
  finally have hi: "\<bar>x\<bar> < 2 powi (int p + e)" .
  from lo hi have "(2::real) powi k < 2 powi (int p + e)" by linarith
  have "k < int p + e"
  proof (rule ccontr)
    assume "\<not> k < int p + e"
    then have "int p + e \<le> k" by simp
    then have "(2::real) powi (int p + e) \<le> 2 powi k"
      by (intro power_int_increasing) simp_all
    with \<open>(2::real) powi k < 2 powi (int p + e)\<close> show False by linarith
  qed
  define E where "E = k - (int p - 1)"
  have Ee: "E \<le> e" using \<open>k < int p + e\<close> by (simp add: E_def)
  define n where "n = nat (e - E)"
  have en: "e = E + int n" using Ee by (simp add: n_def)
  have "x / 2 powi E = of_int m * 2 powi (int n)"
    by (simp add: x_def en power_int_add)
  also have "\<dots> = of_int (m * 2 ^ n)" by simp
  finally have q: "x / 2 powi E = of_int (m * 2 ^ n)" .
  have "fl p x = of_int (round_half_even (x / 2 powi E)) * 2 powi E"
    using x0 by (simp add: fl_def k_def E_def Let_def)
  also have "\<dots> = of_int (m * 2 ^ n) * 2 powi E"
    unfolding q round_half_even_of_int ..
  also have "\<dots> = x"
    by (simp add: x_def en power_int_add)
  finally show ?thesis by (simp add: x_def)
qed

lemma fl_exact_div:
  assumes "x = of_int m / 2 ^ k" and "\<bar>m\<bar> < 2 ^ p"
  shows "fl p x = x"
proof -
  have "x = of_int m * 2 powi (- int k)"
    by (simp add: assms(1) power_int_minus field_simps)
  with fl_exact [OF assms(2), of "- int k"] show ?thesis by simp
qed

subsection \<open>Without rounding the sums are the exact sums\<close>

lemma foldl_add: "foldl (\<lambda>res x. res + x) s a = s + sum_list a" for s :: real
  by (induction a arbitrary: s) simp_all

lemma sum_list_map2_add:
  "length xs = length ys \<Longrightarrow> sum_list (map2 (+) xs ys) = sum_list xs + sum_list ys"
  for xs ys :: "real list"
  by (induction xs ys rule: list_induct2) simp_all

lemma sum_list_take_drop: "sum_list (take n xs) + sum_list (drop n xs) = sum_list xs"
  for xs :: "real list"
  by (metis append_take_drop_id sum_list_append)

lemma add_blocks_exact:
  assumes "length r = 8" and "add_blocks (\<lambda>x. x) r xs = (r', rest)"
  shows "length r' = 8 \<and> sum_list r' + sum_list rest = sum_list r + sum_list xs"
  using assms
proof (induction "\<lambda>x::real. x" r xs rule: add_blocks.induct)
  case (1 r xs)
  show ?case
  proof (cases "length xs < 8")
    case True
    with 1 show ?thesis by (simp add: add_blocks.simps)
  next
    case False
    let ?r = "map2 (\<lambda>a b. a + b) r (take 8 xs)"
    have l: "length ?r = 8" using False "1.prems"(1) by simp
    have ab: "add_blocks (\<lambda>x. x) ?r (drop 8 xs) = (r', rest)"
      using "1.prems"(2) False by (simp add: add_blocks.simps [of _ r xs])
    from "1.hyps" [OF False l ab]
    have ih: "length r' = 8 \<and> sum_list r' + sum_list rest = sum_list ?r + sum_list (drop 8 xs)" .
    have "length r = length (take 8 xs)" using False "1.prems"(1) by simp
    then have "sum_list ?r = sum_list r + sum_list (take 8 xs)"
      by (rule sum_list_map2_add)
    then show ?thesis
      using ih sum_list_take_drop [of 8 xs] by simp
  qed
qed

lemma sum_list_eight:
  fixes r :: "real list"
  assumes "length r = 8"
  shows "((r ! 0 + r ! 1) + (r ! 2 + r ! 3)) + ((r ! 4 + r ! 5) + (r ! 6 + r ! 7)) = sum_list r"
proof -
  from assms obtain a b c d e f g h where "r = [a, b, c, d, e, f, g, h]"
    by (auto simp: length_Suc_conv eval_nat_numeral)
  then show ?thesis by simp
qed

lemma pairwise_sum_exact: "pairwise_sum (\<lambda>x. x) a = sum_list a"
proof (induction "\<lambda>x::real. x" a rule: pairwise_sum.induct)
  case (1 a)
  show ?case
  proof (cases "length a < 8")
    case True
    then show ?thesis
      by (simp add: pairwise_sum.simps [of _ a] foldl_add)
  next
    case False
    show ?thesis
    proof (cases "length a \<le> 128")
      case True
      obtain r rest where ab: "add_blocks (\<lambda>x. x) (take 8 a) (drop 8 a) = (r, rest)"
        by (cases "add_blocks (\<lambda>x. x) (take 8 a) (drop 8 a)")
      have "length (take 8 a) = 8" using False by simp
      from add_blocks_exact [OF this ab]
      have r: "length r = 8" and s: "sum_list r + sum_list rest = sum_list a"
        using sum_list_take_drop [of 8 a] by simp_all
      have "pairwise_sum (\<lambda>x. x) a
          = foldl (\<lambda>res x. res + x)
              (((r ! 0 + r ! 1) + (r ! 2 + r ! 3)) + ((r ! 4 + r ! 5) + (r ! 6 + r ! 7))) rest"
        using False True by (simp add: pairwise_sum.simps [of _ a] ab)
      also have "\<dots> = sum_list r + sum_list rest"
        by (simp only: sum_list_eight [OF r] foldl_add)
      finally show ?thesis using s by simp
    next
      case big: False
      from "1.hyps"(1) [OF False big] "1.hyps"(2) [OF False big]
      show ?thesis
        using False big
        by (simp add: pairwise_sum.simps [of _ a] sum_list_take_drop)
    qed
  qed
qed

lemma np_mean_fp_exact: "np_mean_fp (\<lambda>x. x) a = np_mean a"
  by (simp add: np_mean_fp_def add_reduce_def pairwise_sum_exact np_mean_def)

lemma np_std_fp_exact: "np_std_fp (\<lambda>x. x) a = np_std a"
  by (simp add: np_std_fp_def add_reduce_def pairwise_sum_exact np_std_def np_mean_def Let_def)

lemma compute_threshold_fp_exact:
  "compute_threshold_fp (\<lambda>x. x) np_median np_percentile self method custom
     = compute_threshold self method custom"
  by (cases "similarities self")
     (simp_all add: compute_threshold_fp_def compute_threshold_def np_mean_fp_exact
        np_std_fp_exact cong: if_cong)

text \<open>Sums of zeros are zero, whatever the rounding, so a constant score vector whose
  computed mean is its common value has computed standard deviation zero.\<close>

lemma foldl_zeros:
  fixes rnd :: "real \<Rightarrow> real"
  assumes "rnd 0 = 0" and "\<forall>x\<in>set a. x = 0"
  shows "foldl (\<lambda>res x. rnd (res + x)) 0 a = 0"
  using assms(2)
proof (induction a)
  case Nil
  then show ?case by simp
next
  case (Cons x a)
  then have "x = 0" and "\<forall>x\<in>set a. x = 0" by simp_all
  with Cons.IH show ?case by (simp add: assms(1))
qed

lemma add_blocks_zeros:
  fixes rnd :: "real \<Rightarrow> real"
  assumes "rnd 0 = 0" and "length r = 8" and "\<forall>x\<in>set r. x = 0" and "\<forall>x\<in>set xs. x = 0"
    and "add_blocks rnd r xs = (r', rest)"
  shows "(\<forall>x\<in>set r'. x = 0) \<and> (\<forall>x\<in>set rest. x = 0) \<and> length r' = 8"
  using assms
proof (induction rnd r xs rule: add_blocks.induct)
  case (1 rnd r xs)
  show ?case
  proof (cases "length xs < 8")
    case True
    with "1.prems" show ?thesis by (simp add: add_blocks.simps [of rnd r xs])
  next
    case False
    let ?r = "map2 (\<lambda>a b. rnd (a + b)) r (take 8 xs)"
    have l: "length ?r = 8" using False "1.prems"(2) by simp
    have z: "\<forall>x\<in>set ?r. x = 0"
    proof
      fix x assume "x \<in> set ?r"
      then obtain u w where "(u, w) \<in> set (zip r (take 8 xs))" and x: "x = rnd (u + w)"
        by auto
      then have "u \<in> set r" and "w \<in> set xs"
        by (auto dest: set_zip_leftD set_zip_rightD in_set_takeD)
      with "1.prems"(3,4) have "u = 0" and "w = 0" by simp_all
      with x "1.prems"(1) show "x = 0" by simp
    qed
    have d: "\<forall>x\<in>set (drop 8 xs). x = 0"
      using "1.prems"(4) by (auto dest: in_set_dropD)
    have ab: "add_blocks rnd ?r (drop 8 xs) = (r', rest)"
      using "1.prems"(5) False by (simp add: add_blocks.simps [of rnd r xs])
    from "1.IH" [OF False "1.prems"(1) l z d ab] show ?thesis .
  qed
qed

lemma pairwise_sum_zeros:
  assumes "rnd 0 = 0" and "\<forall>x\<in>set a. x = 0"
  shows "pairwise_sum rnd a = 0"
  using assms
proof (induction rnd a rule: pairwise_sum.induct)
  case (1 rnd a)
  show ?case
  proof (cases "length a < 8")
    case True
    with "1.prems" show ?thesis
      by (simp add: pairwise_sum.simps [of rnd a] foldl_zeros)
  next
    case False
    show ?thesis
    proof (cases "length a \<le> 128")
      case True
      obtain r rest where ab: "add_blocks rnd (take 8 a) (drop 8 a) = (r, rest)"
        by (cases "add_blocks rnd (take 8 a) (drop 8 a)")
      have l: "length (take 8 a) = 8" using False by simp
      have zt: "\<forall>x\<in>set (take 8 a). x = 0"
        using "1.prems"(2) by (auto dest: in_set_takeD)
      have zd: "\<forall>x\<in>set (drop 8 a). x = 0"
        using "1.prems"(2) by (auto dest: in_set_dropD)
      from add_blocks_zeros [OF "1.prems"(1) l zt zd ab]
      have r: "\<forall>x\<in>set r. x = 0" and rest: "\<forall>x\<in>set rest. x = 0" and lr: "length r = 8"
        by simp_all
      have nth: "r ! i = 0" if "i < 8" for i
        using r lr that by (simp add: nth_mem)
      have "pairwise_sum rnd a = foldl (\<lambda>res x. rnd (res + x)) 0 rest"
        using False True "1.prems"(1)
        by (simp add: pairwise_sum.simps [of rnd a] ab nth)
      with foldl_zeros [of rnd rest, OF "1.prems"(1) rest] show ?thesis by simp
    next
      case big: False
      have zt: "\<forall>x\<in>set (take (split_point (length a)) a). x = 0"
        using "1.prems"(2) by (auto dest: in_set_takeD)
      have zd: "\<forall>x\<in>set (drop (split_point (length a)) a). x = 0"
        using "1.prems"(2) by (auto dest: in_set_dropD)
      from "1.IH"(1) [OF False big "1.prems"(1) zt] "1.IH"(2) [OF False big "1.prems"(1) zd]
      show ?thesis
        using False big "1.prems"(1) by (simp add: pairwise_sum.simps [of rnd a])
    qed
  qed
qed

lemma add_reduce_zeros:
  assumes "rnd 0 = 0" and "\<forall>x\<in>set a. x = 0"
  shows "add_reduce rnd a = 0"
  by (simp add: add_reduce_def pairwise_sum_zeros [of rnd a, OF assms] assms(1))

lemma zero_variance_fp:
  assumes "rnd 0 = 0" and "rnd v = v" and "\<forall>x\<in>set sims. x = v" and "np_mean_fp rnd sims = v"
  shows "np_std_fp rnd sims = 0"
proof -
  have m: "rnd (add_reduce rnd sims / real (length sims)) = v"
    using assms(4) by (simp add: np_mean_fp_def)
  have "\<forall>x\<in>set (map (\<lambda>u. rnd (u * u)) (map (\<lambda>u. rnd (u - v)) sims)). x = 0"
    using assms(1,3) by auto
  then have "add_reduce rnd (map (\<lambda>u. rnd (u * u)) (map (\<lambda>u. rnd (u - v)) sims)) = 0"
    using add_reduce_zeros [of rnd "map (\<lambda>u. rnd (u * u)) (map (\<lambda>u. rnd (u - v)) sims)"] assms(1)
    by blast
  then show ?thesis
    by (simp add: np_std_fp_def Let_def m assms(1))
qed

lemma zero_variance_threshold_fp:
  assumes "similarities self = Some sims"
    and "rnd 0 = 0" and "rnd v = v" and "\<forall>x\<in>set sims. x = v" and "np_mean_fp rnd sims = v"
  shows "compute_threshold_fp rnd median percentile self ''mean_2std'' c
         = (Inr v, self\<lparr>threshold := Some v\<rparr>)"
  using assms(1,2,3,5) zero_variance_fp [of rnd v sims, OF assms(2-5)]
  by (simp add: compute_threshold_fp_def Let_def)

subsection \<open>Double precision at 0.2 and at 0.5\<close>

lemma add_reduce_three:
  "add_reduce rnd [a, b, c] = rnd (rnd (rnd (rnd a + b) + c))"
  by (simp add: add_reduce_def pairwise_sum.simps [of rnd "[a, b, c]"])

lemma fl_53_one_fifth: "fl 53 (1/5) = 3602879701896397 / 2 ^ 54"
proof -
  have "fl 53 (1/5) = of_int (round_half_even (1/5 * 2 ^ 55)) / 2 ^ 55"
    by (rule fl_eval_div) simp_all
  also have "round_half_even (1/5 * 2 ^ 55) = 7205759403792794"
    by (simp add: round_half_even_def)
  finally show ?thesis by simp
qed

lemma mean_std_binary64_one_fifth:
  fixes D :: real
  defines "D \<equiv> 3602879701896397 / 2 ^ 54"
  shows "np_mean_fp (fl 53) [D, D, D] = D + 1 / 2 ^ 55"
    and "np_std_fp (fl 53) [D, D, D] = 1 / 2 ^ 55"
proof -
  define S :: real where "S = 5404319552844596 / 2 ^ 53"
  define M :: real where "M = 7205759403792795 / 2 ^ 55"
  define q :: real where "q = 1 / 2 ^ 110"
  have a1: "fl 53 D = D"
    unfolding D_def by (rule fl_exact_div [of _ 3602879701896397 54]) simp_all
  have a2: "fl 53 (D + D) = 2 * D"
    unfolding D_def using fl_exact_div [of "2 * (3602879701896397 / 2 ^ 54)" 3602879701896397 53 53]
    by simp
  have "fl 53 (3 * D) = of_int (round_half_even (3 * D * 2 ^ 53)) / 2 ^ 53"
    unfolding D_def by (rule fl_eval_div) simp_all
  also have "round_half_even (3 * D * 2 ^ 53) = 5404319552844596"
    unfolding D_def by (simp add: round_half_even_def)
  finally have a3: "fl 53 (2 * D + D) = S"
    by (simp add: S_def)
  have a4: "fl 53 S = S"
    unfolding S_def by (rule fl_exact_div [of _ 5404319552844596 53]) simp_all
  have sum: "add_reduce (fl 53) [D, D, D] = S"
    by (simp only: add_reduce_three a1 a2 a3 a4)
  have "fl 53 (S / 3) = of_int (round_half_even (S / 3 * 2 ^ 55)) / 2 ^ 55"
    unfolding S_def by (rule fl_eval_div) simp_all
  also have "round_half_even (S / 3 * 2 ^ 55) = 7205759403792795"
    unfolding S_def by (simp add: round_half_even_def)
  finally have a5: "fl 53 (S / 3) = M"
    by (simp add: M_def)
  have mean: "np_mean_fp (fl 53) [D, D, D] = M"
    by (simp add: np_mean_fp_def sum a5)
  have MD: "M = D + 1 / 2 ^ 55"
    by (simp add: M_def D_def)
  from mean MD show "np_mean_fp (fl 53) [D, D, D] = D + 1 / 2 ^ 55"
    by simp
  have c1: "D - M = - 1 / 2 ^ 55" by (simp add: M_def D_def)
  have c2: "fl 53 (- 1 / 2 ^ 55) = - 1 / 2 ^ 55"
    by (rule fl_exact_div [of _ "- 1" 55]) simp_all
  have b1: "fl 53 (D - M) = - 1 / 2 ^ 55" by (simp only: c1 c2)
  have c3: "(- 1 / 2 ^ 55) * (- 1 / 2 ^ 55) = q" by (simp add: q_def)
  have b2': "fl 53 q = q"
    unfolding q_def by (rule fl_exact_div [of _ 1 110]) simp_all
  have b2: "fl 53 ((- 1 / 2 ^ 55) * (- 1 / 2 ^ 55)) = q" by (simp only: c3 b2')
  have b3: "fl 53 (q + q) = 2 * q"
    unfolding q_def using fl_exact_div [of "2 * (1 / 2 ^ 110)" 1 109 53] by simp
  have b4: "fl 53 (2 * q + q) = 3 * q"
    unfolding q_def using fl_exact_div [of "3 * (1 / 2 ^ 110)" 3 110 53] by simp
  have b5: "fl 53 (3 * q) = 3 * q"
    unfolding q_def using fl_exact_div [of "3 * (1 / 2 ^ 110)" 3 110 53] by simp
  have sq: "add_reduce (fl 53) [q, q, q] = 3 * q"
    by (simp only: add_reduce_three b2' b3 b4 b5)
  have b6: "fl 53 (3 * q / 3) = q"
    using b2' by simp
  have "q = (1 / 2 ^ 55)\<^sup>2" by (simp add: q_def power_divide)
  then have b7: "sqrt q = 1 / 2 ^ 55" by (simp only: real_sqrt_abs) simp
  have b8: "fl 53 (1 / 2 ^ 55) = 1 / 2 ^ 55"
    by (rule fl_exact_div [of _ 1 55]) simp_all
  have "np_std_fp (fl 53) [D, D, D]
      = fl 53 (sqrt (fl 53 (add_reduce (fl 53)
          [fl 53 (fl 53 (D - M) * fl 53 (D - M)), fl 53 (fl 53 (D - M) * fl 53 (D - M)),
           fl 53 (fl 53 (D - M) * fl 53 (D - M))] / 3)))"
    by (simp add: np_std_fp_def Let_def sum a5)
  also have "\<dots> = 1 / 2 ^ 55"
    by (simp only: b1 b2 sq b6 b7 b8)
  finally show "np_std_fp (fl 53) [D, D, D] = 1 / 2 ^ 55" .
qed

lemma compute_threshold_fp_mean_2std:
  assumes "similarities self = Some sims"
  shows "compute_threshold_fp rnd median percentile self ''mean_2std'' c
         = (Inr (rnd (np_mean_fp rnd sims + rnd (2 * np_std_fp rnd sims))),
            self\<lparr>threshold := Some (rnd (np_mean_fp rnd sims + rnd (2 * np_std_fp rnd sims)))\<rparr>)"
  using assms by (simp add: compute_threshold_fp_def Let_def)

lemma fl_one_half: "fl 53 (1/2) = 1/2"
  using fl_exact_div [of "1/2" 1 1 53] by simp

lemma mean_binary64_one_half: "np_mean_fp (fl 53) [1/2, 1/2, 1/2] = 1/2"
proof -
  define h :: real where "h = 1/2"
  have a1: "fl 53 h = h"
    unfolding h_def by (rule fl_one_half)
  have a2: "fl 53 (h + h) = 1"
    unfolding h_def using fl_exact_div [of 1 1 0 53] by simp
  have a3: "fl 53 (1 + h) = 3 * h"
    unfolding h_def using fl_exact_div [of "3/2" 3 1 53] by simp
  have a4: "fl 53 (3 * h) = 3 * h"
    unfolding h_def using fl_exact_div [of "3/2" 3 1 53] by simp
  have s: "add_reduce (fl 53) [h, h, h] = 3 * h"
    by (simp only: add_reduce_three a1 a2 a3 a4)
  have "3 * h / real (length [h, h, h]) = h" by simp
  then have "np_mean_fp (fl 53) [h, h, h] = h"
    by (simp only: np_mean_fp_def s a1)
  then show ?thesis by (simp only: h_def)
qed


section \<open>Threshold policies\<close>

text \<open>
  Claim C2 says that for a non-empty score vector \<^verbatim>\<open>compute_threshold\<close> returns the mean
  plus twice (once) the population standard deviation for "mean_2std" ("mean_1std"), the
  median for "median" and the linearly interpolated 75th and 90th percentile for
  "percentile_75" and "percentile_90", stores the returned value, and in particular
  yields the mean 0.2 for the zero-variance vector [0.2, 0.2, 0.2] under "mean_2std". The
  formulas hold in exact arithmetic. The last part does not hold of the program, which
  rounds: in double precision the computed mean of [0.2, 0.2, 0.2] is the double next
  above 0.2, the computed standard deviation is \<open>1 / 2 ^ 55\<close> and not 0, and the threshold
  is \<open>3 / 2 ^ 55\<close> above 0.2 (printed 0.2000000000000001), above every score.

  Claim C2, as amended. For a non-empty score vector \<^verbatim>\<open>compute_threshold\<close> returns, in
  exact arithmetic, the mean plus twice the population standard deviation for
  "mean_2std", the mean plus once the population standard deviation for "mean_1std", the
  median for "median" and the linearly interpolated 75th and 90th percentile for
  "percentile_75" and "percentile_90"; the returned value is stored as the selector's
  threshold. For a zero-variance score vector with common value \<open>v\<close>, "mean_2std" computed
  in floating point yields \<open>v\<close> whenever the computed mean is \<open>v\<close> (as for [0.5, 0.5, 0.5]
  in double precision).
\<close>

theorem threshold_policies:
  assumes "similarities self = Some sims" and "sims \<noteq> []"
  shows "compute_threshold self ''mean_2std'' c
           = (Inr (spec_mean sims + 2 * spec_population_std sims),
              self\<lparr>threshold := Some (spec_mean sims + 2 * spec_population_std sims)\<rparr>)
       \<and> compute_threshold self ''mean_1std'' c
           = (Inr (spec_mean sims + 1 * spec_population_std sims),
              self\<lparr>threshold := Some (spec_mean sims + 1 * spec_population_std sims)\<rparr>)
       \<and> compute_threshold self ''median'' c
           = (Inr (spec_median sims), self\<lparr>threshold := Some (spec_median sims)\<rparr>)
       \<and> compute_threshold self ''percentile_75'' c
           = (Inr (spec_linear_percentile sims 75),
              self\<lparr>threshold := Some (spec_linear_percentile sims 75)\<rparr>)
       \<and> compute_threshold self ''percentile_90'' c
           = (Inr (spec_linear_percentile sims 90),
              self\<lparr>threshold := Some (spec_linear_percentile sims 90)\<rparr>)
       \<and> ((\<forall>x\<in>set sims. x = v) \<and> fl p v = v \<and> np_mean_fp (fl p) sims = v \<longrightarrow>
            compute_threshold_fp (fl p) median percentile self ''mean_2std'' c
              = (Inr v, self\<lparr>threshold := Some v\<rparr>))"
proof -
  have p75: "np_percentile sims 75 = spec_linear_percentile sims 75"
    using assms(2) by (rule np_percentile_spec) simp_all
  have p90: "np_percentile sims 90 = spec_linear_percentile sims 90"
    using assms(2) by (rule np_percentile_spec) simp_all
  have a: "compute_threshold self ''mean_2std'' c
           = (Inr (np_mean sims + 2 * np_std sims), self\<lparr>threshold := Some (np_mean sims + 2 * np_std sims)\<rparr>)"
    using assms(1) by (simp add: compute_threshold_def Let_def)
  have b: "compute_threshold self ''mean_1std'' c
           = (Inr (np_mean sims + 1 * np_std sims), self\<lparr>threshold := Some (np_mean sims + 1 * np_std sims)\<rparr>)"
    using assms(1) by (simp add: compute_threshold_def Let_def)
  have c: "compute_threshold self ''median'' c
           = (Inr (np_median sims), self\<lparr>threshold := Some (np_median sims)\<rparr>)"
    using assms(1) by (simp add: compute_threshold_def Let_def)
  have d: "compute_threshold self ''percentile_75'' c
           = (Inr (np_percentile sims 75), self\<lparr>threshold := Some (np_percentile sims 75)\<rparr>)"
    using assms(1) by (simp add: compute_threshold_def Let_def)
  have e: "compute_threshold self ''percentile_90'' c
           = (Inr (np_percentile sims 90), self\<lparr>threshold := Some (np_percentile sims 90)\<rparr>)"
    using assms(1) by (simp add: compute_threshold_def Let_def)
  have f: "compute_threshold_fp (fl p) median percentile self ''mean_2std'' c
              = (Inr v, self\<lparr>threshold := Some v\<rparr>)"
    if "(\<forall>x\<in>set sims. x = v) \<and> fl p v = v \<and> np_mean_fp (fl p) sims = v"
    using zero_variance_threshold_fp [of self sims "fl p" v median percentile c] assms(1) that
    by (simp add: fl_zero)
  show ?thesis
    using a b c d e f by (simp only: np_mean_spec np_std_spec np_median_spec p75 p90) blast
qed

theorem threshold_policies_witness:
  "compute_threshold \<lparr>similarities = Some [1/10, 1/2, 9/10, 3/10, 7/10], threshold = None\<rparr>
        ''median'' None
     = (Inr (1/2), \<lparr>similarities = Some [1/10, 1/2, 9/10, 3/10, 7/10], threshold = Some (1/2)\<rparr>)
   \<and> compute_threshold_fp (fl 53) np_median np_percentile
        \<lparr>similarities = Some [1/2, 1/2, 1/2], threshold = None\<rparr> ''mean_2std'' None
     = (Inr (1/2), \<lparr>similarities = Some [1/2, 1/2, 1/2], threshold = Some (1/2)\<rparr>)"
proof -
  have h1: "similarities \<lparr>similarities = Some [1/2, 1/2, 1/2], threshold = None\<rparr>
              = Some [1/2, 1/2, 1/2]"
    by simp
  have h2: "[1/2, 1/2, 1/2] \<noteq> ([] :: real list)"
    by simp
  have h3: "(\<forall>x\<in>set [1/2, 1/2, 1/2 :: real]. x = 1/2) \<and> fl 53 (1/2) = 1/2
              \<and> np_mean_fp (fl 53) [1/2, 1/2, 1/2] = 1/2"
    by (simp add: fl_one_half mean_binary64_one_half)
  from threshold_policies [OF h1 h2, of None "1/2" 53 np_median np_percentile] h3
  have a: "compute_threshold_fp (fl 53) np_median np_percentile
        \<lparr>similarities = Some [1/2, 1/2, 1/2], threshold = None\<rparr> ''mean_2std'' None
     = (Inr (1/2), \<lparr>similarities = Some [1/2, 1/2, 1/2], threshold = None\<rparr>\<lparr>threshold := Some (1/2)\<rparr>)"
    by blast
  have k1: "similarities \<lparr>similarities = Some [1/10, 1/2, 9/10, 3/10, 7/10], threshold = None\<rparr>
              = Some [1/10, 1/2, 9/10, 3/10, 7/10]"
    by simp
  have k2: "[1/10, 1/2, 9/10, 3/10, 7/10] \<noteq> ([] :: real list)"
    by simp
  from threshold_policies [OF k1 k2, of None 0 53 np_median np_percentile]
  have b: "compute_threshold \<lparr>similarities = Some [1/10, 1/2, 9/10, 3/10, 7/10], threshold = None\<rparr>
        ''median'' None
     = (Inr (spec_median [1/10, 1/2, 9/10, 3/10, 7/10]),
        \<lparr>similarities = Some [1/10, 1/2, 9/10, 3/10, 7/10], threshold = None\<rparr>
        \<lparr>threshold := Some (spec_median [1/10, 1/2, 9/10, 3/10, 7/10])\<rparr>)"
    by blast
  have "spec_median [1/10, 1/2, 9/10, 3/10, 7/10] = 1/2"
    by (simp add: spec_median_def)
  with a b show ?thesis by simp
qed

theorem zero_variance_counterexample:
  "compute_threshold_fp (fl 53) np_median np_percentile
      \<lparr>similarities = Some [fl 53 (1/5), fl 53 (1/5), fl 53 (1/5)], threshold = None\<rparr>
      ''mean_2std'' None
    = (Inr (fl 53 (1/5) + 3 / 2 ^ 55),
       \<lparr>similarities = Some [fl 53 (1/5), fl 53 (1/5), fl 53 (1/5)],
          threshold = Some (fl 53 (1/5) + 3 / 2 ^ 55)\<rparr>)
   \<and> fl 53 (1/5) + 3 / 2 ^ 55 \<noteq> fl 53 (1/5)"
proof -
  define D :: real where "D = 3602879701896397 / 2 ^ 54"
  have d: "fl 53 (1/5) = D"
    by (simp only: fl_53_one_fifth D_def)
  have m: "np_mean_fp (fl 53) [D, D, D] = D + 1 / 2 ^ 55"
    and s: "np_std_fp (fl 53) [D, D, D] = 1 / 2 ^ 55"
    unfolding D_def by (rule mean_std_binary64_one_fifth)+
  have "2 * (1 / 2 ^ 55) = (1 / 2 ^ 54 :: real)" by simp
  moreover have "fl 53 (1 / 2 ^ 54) = 1 / 2 ^ 54"
    by (rule fl_exact_div [of _ 1 54]) simp_all
  ultimately have t1: "fl 53 (2 * (1 / 2 ^ 55)) = 1 / 2 ^ 54"
    by (simp only:)
  have e: "D + 1 / 2 ^ 55 + 1 / 2 ^ 54 = D + 3 / 2 ^ 55" by simp
  have "D + 3 / 2 ^ 55 = of_int 7205759403792797 / 2 ^ 55"
    by (simp add: D_def)
  then have "fl 53 (D + 3 / 2 ^ 55) = D + 3 / 2 ^ 55"
    by (rule fl_exact_div) simp
  with e have t2: "fl 53 (D + 1 / 2 ^ 55 + 1 / 2 ^ 54) = D + 3 / 2 ^ 55"
    by (simp only:)
  have sims: "similarities \<lparr>similarities = Some [D, D, D], threshold = None\<rparr> = Some [D, D, D]"
    by simp
  have "compute_threshold_fp (fl 53) np_median np_percentile
      \<lparr>similarities = Some [D, D, D], threshold = None\<rparr> ''mean_2std'' None
    = (Inr (D + 3 / 2 ^ 55),
       \<lparr>similarities = Some [D, D, D], threshold = None\<rparr>\<lparr>threshold := Some (D + 3 / 2 ^ 55)\<rparr>)"
    by (simp only: compute_threshold_fp_mean_2std [OF sims] m s t1 t2)
  moreover have "D + 3 / 2 ^ 55 \<noteq> D" by simp
  ultimately show ?thesis
    unfolding d by simp
qed

text \<open>
  Claim C8. For a non-empty score vector the thresholds of the percentile policies are
  ordered: "percentile_90" gives at least the threshold of "percentile_75", which gives
  at least the threshold of "median".
\<close>

theorem percentile_thresholds_monotone:
  assumes "similarities self = Some sims" and "sims \<noteq> []"
  shows "\<exists>t90 t75 t50.
           fst (compute_threshold self ''percentile_90'' c) = Inr t90
         \<and> fst (compute_threshold self ''percentile_75'' c) = Inr t75
         \<and> fst (compute_threshold self ''median'' c) = Inr t50
         \<and> t75 \<le> t90 \<and> t50 \<le> t75"
proof -
  have "np_percentile sims 75 \<le> np_percentile sims 90"
    using assms(2) by (rule np_percentile_mono) simp_all
  moreover have "np_percentile sims 50 \<le> np_percentile sims 75"
    using assms(2) by (rule np_percentile_mono) simp_all
  ultimately show ?thesis
    using assms(1) np_median_percentile [OF assms(2)]
    by (simp add: compute_threshold_def Let_def)
qed

theorem percentile_thresholds_monotone_witness:
  "\<exists>t90 t75 t50.
       fst (compute_threshold \<lparr>similarities = Some [3, 1, 2], threshold = None\<rparr> ''percentile_90'' None) = Inr t90
     \<and> fst (compute_threshold \<lparr>similarities = Some [3, 1, 2], threshold = None\<rparr> ''percentile_75'' None) = Inr t75
     \<and> fst (compute_threshold \<lparr>similarities = Some [3, 1, 2], threshold = None\<rparr> ''median'' None) = Inr t50
     \<and> t75 \<le> t90 \<and> t50 \<le> t75"
  using percentile_thresholds_monotone [of "\<lparr>similarities = Some [3, 1, 2], threshold = None\<rparr>" "[3, 1, 2]" None]
  by simp

section \<open>Selection\<close>

lemma get_statistics_threshold_field:
  assumes "similarities self = Some sims" and "sims \<noteq> []" and "threshold self = Some t"
  shows "\<exists>stats. get_statistics self = (Inr stats, self)
            \<and> stats ''threshold'' = Some (PyFloat t)
            \<and> stats ''selected_count'' = Some (PyInt (np_sum_bool (ge_mask sims t)))"
  using assms by (simp add: get_statistics_def np_min_Min np_max_Max Let_def)



section \<open>Statistics\<close>

lemma get_statistics_result:
  assumes "similarities self = Some sims" and "sims \<noteq> []"
  shows "get_statistics self =
    (Inr (let stats = map_of
                    [(''count'', PyInt (int (length sims))),
                     (''mean'', PyFloat (spec_mean sims)),
                     (''std'', PyFloat (spec_population_std sims)),
                     (''median'', PyFloat (spec_median sims)),
                     (''min'', PyFloat (Min (set sims))),
                     (''max'', PyFloat (Max (set sims))),
                     (''q25'', PyFloat (spec_linear_percentile sims 25)),
                     (''q75'', PyFloat (spec_linear_percentile sims 75)),
                     (''q90'', PyFloat (spec_linear_percentile sims 90)),
                     (''q95'', PyFloat (spec_linear_percentile sims 95))]
          in case threshold self of None \<Rightarrow> stats
             | Some t \<Rightarrow> stats(''threshold'' \<mapsto> PyFloat t,
                  ''selected_count'' \<mapsto> PyInt (int (length (filter (\<lambda>x. x \<ge> t) sims))),
                  ''selected_percentage'' \<mapsto>
                     PyFloat (100 * real (length (filter (\<lambda>x. x \<ge> t) sims)) / real (length sims)))),
     self)"
proof -
  have p: "np_percentile sims 25 = spec_linear_percentile sims 25"
    "np_percentile sims 75 = spec_linear_percentile sims 75"
    "np_percentile sims 90 = spec_linear_percentile sims 90"
    "np_percentile sims 95 = spec_linear_percentile sims 95"
    using assms(2) by (simp_all add: np_percentile_spec)
  show ?thesis
    using assms
    by (simp add: get_statistics_def np_min_Min np_max_Max Let_def np_sum_bool_count
        np_mean_spec np_std_spec np_median_spec p split: option.splits)
qed

text \<open>
  Claim C4. With scores set, \<^verbatim>\<open>get_statistics\<close> leaves the selector as it is and returns
  the count, mean, population standard deviation, median, minimum, maximum and the
  25th, 75th, 90th and 95th percentiles. Without a stored threshold the keys
  "threshold", "selected_count" and "selected_percentage" are absent; with a stored
  threshold they are present, "selected_count" is the number of scores at or above the
  threshold (the sum of the mask \<^verbatim>\<open>select_papers\<close> returns) and "selected_percentage" is
  100 times that number divided by the count.
\<close>

theorem statistics_fields:
  assumes "similarities self = Some sims" and "sims \<noteq> []"
  shows "\<exists>stats. get_statistics self = (Inr stats, self)
     \<and> stats ''count'' = Some (PyInt (int (length sims)))
     \<and> stats ''mean'' = Some (PyFloat (spec_mean sims))
     \<and> stats ''std'' = Some (PyFloat (spec_population_std sims))
     \<and> stats ''median'' = Some (PyFloat (spec_median sims))
     \<and> stats ''min'' = Some (PyFloat (Min (set sims)))
     \<and> stats ''max'' = Some (PyFloat (Max (set sims)))
     \<and> stats ''q25'' = Some (PyFloat (spec_linear_percentile sims 25))
     \<and> stats ''q75'' = Some (PyFloat (spec_linear_percentile sims 75))
     \<and> stats ''q90'' = Some (PyFloat (spec_linear_percentile sims 90))
     \<and> stats ''q95'' = Some (PyFloat (spec_linear_percentile sims 95))
     \<and> (threshold self = None \<longrightarrow>
           dom stats = base_keys
         \<and> stats ''threshold'' = None \<and> stats ''selected_count'' = None
         \<and> stats ''selected_percentage'' = None)
     \<and> (threshold self = Some t \<longrightarrow>
           dom stats = base_keys \<union> {''threshold'', ''selected_count'', ''selected_percentage''}
         \<and> stats ''threshold'' = Some (PyFloat t)
         \<and> stats ''selected_count'' = Some (PyInt (int (length (filter (\<lambda>x. x \<ge> t) sims))))
         \<and> stats ''selected_percentage''
              = Some (PyFloat (100 * real (length (filter (\<lambda>x. x \<ge> t) sims)) / real (length sims)))
         \<and> (\<exists>mask. select_papers self None = (Inr mask, self)
                \<and> int (length (filter (\<lambda>x. x \<ge> t) sims)) = np_sum_bool mask))"
proof (cases "threshold self")
  case None
  show ?thesis
    unfolding get_statistics_result [OF assms] using None
    by (simp add: Let_def)
next
  case (Some u)
  have "select_papers self None = (Inr (ge_mask sims u), self)"
    using assms(1) Some by (simp add: select_papers_def)
  then have m: "\<exists>mask. select_papers self None = (Inr mask, self)
                \<and> int (length (filter (\<lambda>x. x \<ge> u) sims)) = np_sum_bool mask"
    by (simp add: np_sum_bool_count)
  show ?thesis
    unfolding get_statistics_result [OF assms] using Some m
    by (simp add: Let_def) (auto simp: dom_def)
qed

theorem statistics_fields_witness:
  "(\<exists>stats. get_statistics \<lparr>similarities = Some [1/10, 1/2, 9/10, 3/10, 7/10], threshold = Some (1/2)\<rparr>
              = (Inr stats, \<lparr>similarities = Some [1/10, 1/2, 9/10, 3/10, 7/10], threshold = Some (1/2)\<rparr>)
          \<and> stats ''count'' = Some (PyInt 5)
          \<and> stats ''threshold'' = Some (PyFloat (1/2))
          \<and> stats ''selected_count'' = Some (PyInt 3)
          \<and> stats ''selected_percentage'' = Some (PyFloat 60))
   \<and> (\<exists>stats. get_statistics \<lparr>similarities = Some [1/10, 1/2, 9/10, 3/10, 7/10], threshold = None\<rparr>
              = (Inr stats, \<lparr>similarities = Some [1/10, 1/2, 9/10, 3/10, 7/10], threshold = None\<rparr>)
          \<and> stats ''count'' = Some (PyInt 5)
          \<and> stats ''threshold'' = None
          \<and> stats ''selected_count'' = None
          \<and> stats ''selected_percentage'' = None)"
proof -
  let ?xs = "[1/10, 1/2, 9/10, 3/10, 7/10] :: real list"
  let ?s = "\<lparr>similarities = Some ?xs, threshold = Some (1/2)\<rparr>"
  let ?e = "\<lparr>similarities = Some ?xs, threshold = None\<rparr>"
  have h1: "similarities ?s = Some ?xs" and h0: "similarities ?e = Some ?xs" by simp_all
  have h2: "?xs \<noteq> []" by simp
  have h3: "threshold ?s = Some (1/2)" and h4: "threshold ?e = None" by simp_all
  from statistics_fields [OF h1 h2, of "1/2"] h3
  have a: "\<exists>stats. get_statistics ?s = (Inr stats, ?s)
          \<and> stats ''count'' = Some (PyInt 5)
          \<and> stats ''threshold'' = Some (PyFloat (1/2))
          \<and> stats ''selected_count'' = Some (PyInt 3)
          \<and> stats ''selected_percentage'' = Some (PyFloat 60)"
    by auto
  from statistics_fields [OF h0 h2, of 0] h4
  have b: "\<exists>stats. get_statistics ?e = (Inr stats, ?e)
          \<and> stats ''count'' = Some (PyInt 5)
          \<and> stats ''threshold'' = None
          \<and> stats ''selected_count'' = None
          \<and> stats ''selected_percentage'' = None"
    by auto
  from a b show ?thesis by blast
qed

section \<open>Reusing a selector for a second batch\<close>

text \<open>
  Claim C9. \<^verbatim>\<open>compute_similarities\<close> never changes the stored threshold: a successful
  call replaces the stored scores only, a failed call changes nothing. So on a selector
  that already holds a threshold \<open>t\<close> from an earlier batch, after scoring a new batch
  \<^verbatim>\<open>select_papers\<close> without an argument selects the new scores against the old \<open>t\<close>, and
  \<^verbatim>\<open>get_statistics\<close> reports the old \<open>t\<close> and counts the new scores against it.
\<close>

theorem stale_threshold_persists:
  "threshold (snd (compute_similarities self P R)) = threshold self
   \<and> (compute_similarities self P R = (Inl e, self') \<longrightarrow> self' = self)
   \<and> (compute_similarities self P R = (Inr sc, self') \<and> threshold self = Some t \<longrightarrow>
         self' = self\<lparr>similarities := Some sc\<rparr>
       \<and> threshold self' = Some t
       \<and> select_papers self' None = (Inr (map (\<lambda>x. x \<ge> t) sc), self')
       \<and> (\<exists>stats. get_statistics self' = (Inr stats, self')
                \<and> stats ''threshold'' = Some (PyFloat t)
                \<and> stats ''selected_count'' = Some (PyInt (int (length (filter (\<lambda>x. x \<ge> t) sc))))))"
proof (intro conjI impI)
  show "threshold (snd (compute_similarities self P R)) = threshold self"
    by (rule compute_similarities_threshold)
next
  assume "compute_similarities self P R = (Inl e, self')"
  then show "self' = self"
    by (auto simp: compute_similarities_def Let_def split: sum.splits)
next
  assume a: "compute_similarities self P R = (Inr sc, self') \<and> threshold self = Some t"
  then have c: "compute_similarities self P R = (Inr sc, self')" by simp
  then have s: "self' = self\<lparr>similarities := Some sc\<rparr>"
    by (rule compute_similarities_Inr)
  from c have ne: "sc \<noteq> []" by (rule compute_similarities_nonempty)
  from s show "self' = self\<lparr>similarities := Some sc\<rparr>" .
  from s a show t: "threshold self' = Some t" by simp
  from s have sims: "similarities self' = Some sc" by simp
  from sims t show "select_papers self' None = (Inr (map (\<lambda>x. x \<ge> t) sc), self')"
    by (simp add: select_papers_def ge_mask_def)
  from get_statistics_threshold_field [OF sims ne t]
  show "\<exists>stats. get_statistics self' = (Inr stats, self')
                \<and> stats ''threshold'' = Some (PyFloat t)
                \<and> stats ''selected_count'' = Some (PyInt (int (length (filter (\<lambda>x. x \<ge> t) sc))))"
    by (simp add: np_sum_bool_count)
qed

theorem stale_threshold_persists_witness:
  "compute_similarities \<lparr>similarities = Some [1/4], threshold = Some (1/2)\<rparr>
       (Array2 [[0, 0], [1, 0]]) (Array1 [1, 0])
     = (Inr [0, 1], \<lparr>similarities = Some [0, 1], threshold = Some (1/2)\<rparr>)
   \<and> select_papers \<lparr>similarities = Some [0, 1], threshold = Some (1/2)\<rparr> None
     = (Inr [False, True], \<lparr>similarities = Some [0, 1], threshold = Some (1/2)\<rparr>)
   \<and> (\<exists>stats. get_statistics \<lparr>similarities = Some [0, 1], threshold = Some (1/2)\<rparr>
                 = (Inr stats, \<lparr>similarities = Some [0, 1], threshold = Some (1/2)\<rparr>)
             \<and> stats ''threshold'' = Some (PyFloat (1/2))
             \<and> stats ''selected_count'' = Some (PyInt 1))"
proof -
  let ?s = "\<lparr>similarities = Some [1/4], threshold = Some (1/2)\<rparr>"
  let ?s' = "\<lparr>similarities = Some [0, 1], threshold = Some (1/2)\<rparr>"
  have c: "compute_similarities ?s (Array2 [[0, 0], [1, 0]]) (Array1 [1, 0]) = (Inr [0, 1], ?s')"
    by (simp add: compute_similarities_def ndim_def reshape_1_m1_def cosine_similarity_def
      check_pairwise_arrays_def check_array_def normalize_rows_def row_norm_def
      handle_zeros_in_scale_def dot_def flatten_def)
  have t: "threshold ?s = Some (1/2)" by simp
  from stale_threshold_persists [of ?s "Array2 [[0, 0], [1, 0]]" "Array1 [1, 0]"] c t
  have "select_papers ?s' None = (Inr (map (\<lambda>x. x \<ge> 1/2) [0, 1 :: real]), ?s')
       \<and> (\<exists>stats. get_statistics ?s' = (Inr stats, ?s')
                \<and> stats ''threshold'' = Some (PyFloat (1/2))
                \<and> stats ''selected_count'' = Some (PyInt (int (length (filter (\<lambda>x. x \<ge> 1/2) [0, 1 :: real])))))"
    by blast
  with c show ?thesis by simp
qed

end
